theory Spec2Isabelle
  imports Complex_Main
begin

section \<open>Style descriptions\<close>

text \<open>
  A style rule of \<^verbatim>\<open>Sidebar/styled-components.ts\<close> is an arrow function that receives the
  component's props together with the theme and returns an object literal. The object is
  kept as an association list in the order the literal lists its keys. A value is a
  string, a number, \<^verbatim>\<open>null\<close>, an array of fallback values, or a nested object.
  Numbers that the source only counts with (pixel widths, z-indices) are integers. A
  number stored in a style is the real value of the double that the code stores; the one
  product that is not an integer, \<^verbatim>\<open>window.innerWidth * 0.9\<close>, is rounded as the
  multiplication of doubles rounds it.
\<close>

datatype css_value =
    Str string
  | Num real
  | Null
  | Arr "css_value list"
  | Obj "(string \<times> css_value) list"

type_synonym css_object = "(string \<times> css_value) list"



subsection \<open>The theme and the window\<close>

text \<open>
  The theme's type is declared outside this module. Its fields are typed by their use
  here: colours, spacings, sizes, font sizes and breakpoints are interpolated into
  strings or handed to \<^verbatim>\<open>transparentize\<close>, so they are strings; z-indices are added to,
  so they are integers; the line height is a number.
\<close>

record ThemeColors =
  bgColor :: string
  bodyText :: string
  fadedText10 :: string
  fadedText20 :: string
  fadedText60 :: string
  darkenedBgMix15 :: string
  darkenedBgMix25 :: string
  gray60 :: string
  transparent :: string
  primary :: string

record ThemeZIndices =
  header :: int
  sidebarMobile :: int

record ThemeBreakpoints =
  md :: string

record ThemeSpacing =
  none :: string
  threeXS :: string
  twoXS :: string
  xs :: string
  sm :: string
  lg :: string
  twoXL :: string

record ThemeLineHeights =
  menuItem :: real

record ThemeSizes =
  sidebarTopSpace :: string

record ThemeFontSizes =
  sm :: string

record EmotionTheme =
  colors :: ThemeColors
  zIndices :: ThemeZIndices
  breakpoints :: ThemeBreakpoints
  spacing :: ThemeSpacing
  lineHeights :: ThemeLineHeights
  sizes :: ThemeSizes
  fontSizes :: ThemeFontSizes

text \<open>The global \<^verbatim>\<open>window\<close>, of which the module reads \<^verbatim>\<open>innerWidth\<close> only.\<close>

record Window =
  innerWidth :: int

subsection \<open>Props\<close>

record StyledSidebarProps =
  isCollapsed :: bool
  adjustTop :: bool
  sidebarWidth :: string

record StyledSidebarNavItemsProps =
  isExpanded :: bool
  isOverflowing :: bool
  hasSidebarElements :: bool

record StyledSidebarNavSeparatorContainerProps =
  isExpanded :: bool
  isOverflowing :: bool




record StyledSidebarCollapsedControlProps =
  chevronDownshift :: int
  isCollapsed :: bool

record StyledLogoProps =
  sizeP :: string


subsection \<open>Numbers in template strings\<close>

text \<open>
  A number interpolated into a template string, or added to a string, is written in
  decimal, with a leading minus sign when negative.
\<close>

fun string_of_nat :: "nat \<Rightarrow> string" where
  "string_of_nat n =
     (if n < 10 then [''0123456789'' ! n]
      else string_of_nat (n div 10) @ [''0123456789'' ! (n mod 10)])"

definition string_of_number :: "int \<Rightarrow> string" where
  "string_of_number i =
     (if i < 0 then ''-'' @ string_of_nat (nat (- i)) else string_of_nat (nat i))"

subsection \<open>The product with 0.9\<close>

text \<open>
  Numbers are binary64 doubles. The literal \<^verbatim>\<open>0.9\<close> denotes the double nearest to nine
  tenths, which is \<open>8106479329266893 / 2 ^ 53\<close>. The window's inner width is an integer
  number of pixels, a \<^verbatim>\<open>long\<close>, and is a double as it stands. The product of the two is
  the exact product rounded to the nearest double, to the even significand on a tie: the
  exact product is an integer over \<open>2 ^ 53\<close>, and rounding keeps the 53 leading bits of
  that integer. (For a \<^verbatim>\<open>long\<close> the product is far from the ends of the exponent range,
  where a double rounds differently.)
\<close>

fun bit_length :: "nat \<Rightarrow> nat" where
  "bit_length n = (if n = 0 then 0 else Suc (bit_length (n div 2)))"

declare bit_length.simps [simp del]

definition round_to_53_bits :: "nat \<Rightarrow> nat" where
  "round_to_53_bits n =
     (if bit_length n \<le> 53 then n
      else let sh = bit_length n - 53;
               q = n div 2 ^ sh;
               r = n mod 2 ^ sh;
               half = 2 ^ (sh - 1)
           in (if half < r \<or> (r = half \<and> odd q) then q + 1 else q) * 2 ^ sh)"

definition significand_0_9 :: nat where
  "significand_0_9 = 8106479329266893"

definition times_0_9 :: "int \<Rightarrow> real" where
  "times_0_9 i =
     real_of_int (sgn i) * real (round_to_53_bits (nat \<bar>i\<bar> * significand_0_9)) / 2 ^ 53"

subsection \<open>The style rules\<close>

definition StyledSidebar :: "Window \<Rightarrow> EmotionTheme \<Rightarrow> StyledSidebarProps \<Rightarrow> css_object" where
  "StyledSidebar window theme props =
     (let minWidth = (if StyledSidebarProps.isCollapsed props then 0
                      else real_of_int (min 244 (innerWidth window)));
          maxWidth = (if StyledSidebarProps.isCollapsed props then 0
                      else min 550 (times_0_9 (innerWidth window)))
      in [(''position'', Str ''relative''),
          (''top'', Str (if adjustTop props then ''2px'' else ''0px'')),
          (''backgroundColor'', Str (bgColor (colors theme))),
          (''zIndex'', Num (real_of_int (header (zIndices theme) + 1))),
          (''minWidth'', Num minWidth),
          (''maxWidth'', Num maxWidth),
          (''transform'',
             Str (if StyledSidebarProps.isCollapsed props
                  then ''translateX(-'' @ sidebarWidth props @ ''px)'' else ''none'')),
          (''transition'', Str ''transform 300ms, min-width 300ms, max-width 300ms''),
          (''&:focus'', Obj [(''outline'', Str ''none'')]),
          (''@media (max-width: '' @ md (breakpoints theme) @ '')'',
             Obj [(''boxShadow'',
                   Str (''-2rem 0 2rem 2rem '' @
                        (if StyledSidebarProps.isCollapsed props
                         then ''transparent'' else ''#00000029'')))]),
          (''@media print'',
             Obj [(''backgroundColor'', Str ''transparent''),
                  (''margin'', Str ''auto''),
                  (''boxShadow'', Str ''none''),
                  (''maxWidth'', Str ''none''),
                  (''minWidth'', Str ''100%''),
                  (''width'', Str ''100% !important''),
                  (''paddingTop'', Str ''1rem'')])])"


definition StyledSidebarNavItems ::
  "EmotionTheme \<Rightarrow> StyledSidebarNavItemsProps \<Rightarrow> css_object" where
  \<open>StyledSidebarNavItems theme props =
     (let isExpandedMaxHeight =
            (if StyledSidebarNavItemsProps.isExpanded props then ''75vh'' else ''33vh'');
          maxHeight = (if hasSidebarElements props then isExpandedMaxHeight else ''100vh'')
      in [(''maxHeight'', Str maxHeight),
          (''listStyle'', Str ''none''),
          (''overflow'', Arr [Str ''auto'', Str ''overlay'']),
          (''margin'', Num 0),
          (''paddingTop'', Str (lg (spacing theme))),
          (''paddingBottom'', Str (lg (spacing theme))),
          (''@media print'', Obj [(''paddingTop'', Str (ThemeSpacing.sm (spacing theme)))]),
          (''&::before'',
             (if StyledSidebarNavItemsProps.isOverflowing props
              then Obj [(''content'', Str ''" "''),
                        (''backgroundImage'',
                           Str (''linear-gradient(0deg, transparent, '' @
                                bgColor (colors theme) @ '')'')),
                        (''width'', Str ''100%''),
                        (''height'', Str ''2rem''),
                        (''position'', Str ''absolute''),
                        (''top'', Num 0),
                        (''left'', Num 0),
                        (''right'', Num 0),
                        (''pointerEvents'', Str ''none'')]
              else Null)),
          (''&::after'',
             (if StyledSidebarNavItemsProps.isOverflowing props
              then Obj [(''content'', Str ''" "''),
                        (''backgroundImage'',
                           Str (''linear-gradient(0deg, '' @
                                bgColor (colors theme) @ '', transparent)'')),
                        (''height'', Str ''2rem''),
                        (''position'', Str ''absolute''),
                        (''bottom'', Num 0),
                        (''left'', Num 0),
                        (''right'', Num 0),
                        (''pointerEvents'', Str ''none'')]
              else Null))])\<close>

text \<open>
  \<^verbatim>\<open>bounceAnimation\<close> is declared next in the source; its only use is inside a comment, so
  no style refers to it.
\<close>

definition StyledSidebarNavSeparatorContainer ::
  "EmotionTheme \<Rightarrow> StyledSidebarNavSeparatorContainerProps \<Rightarrow> css_object" where
  "StyledSidebarNavSeparatorContainer theme props =
     [(''cursor'',
         Str (if StyledSidebarNavSeparatorContainerProps.isExpanded props
                 \<or> StyledSidebarNavSeparatorContainerProps.isOverflowing props
              then ''pointer'' else ''default'')),
      (''position'', Str ''absolute''),
      (''height'', Str (lg (spacing theme))),
      (''left'', Num 0),
      (''right'', Num 0),
      (''bottom'', Num 0),
      (''display'', Str ''flex''),
      (''alignItems'', Str ''center''),
      (''justifyContent'', Str ''center''),
      (''color'', Str (fadedText60 (colors theme))),
      (''borderBottom'', Str (''1px solid '' @ fadedText10 (colors theme))),
      (''transition'', Str ''color 500ms'')]"












definition StyledLogo :: "EmotionTheme \<Rightarrow> StyledLogoProps \<Rightarrow> css_object" where
  "StyledLogo theme props =
     (let logoHeight = (if sizeP props = ''fixed'' then ''1.5rem'' else ''auto'')
      in [(''height'', Str logoHeight),
          (''margin'', Str ''0.5rem 0 0.5rem 0''),
          (''zIndex'', Num (real_of_int (header (zIndices theme))))])"




subsection \<open>Calling a style rule\<close>




section \<open>The application skeleton\<close>

text \<open>
  \<^verbatim>\<open>RawAppSkeleton\<close> keeps one state cell, \<^verbatim>\<open>visible\<close>, and registers one effect that runs
  once, after the first render. The runtime around it is modelled as far as the component
  uses it: a clock in milliseconds, the table of pending timeouts (handle and deadline;
  every timeout of this model has the component's callback), the state cell, the handle
  the cleanup closure captured, and whether the component is mounted. The list
  \<open>setVisible_calls\<close> records every call of \<^verbatim>\<open>setVisible\<close> with its argument.
  The message type of the prop is generated elsewhere; only its \<^verbatim>\<open>height\<close>, an integer
  field, is read.
\<close>

record SkeletonProto =
  height :: int

datatype react_element =
    Fragment "react_element list"
  | Element string "(string \<times> string) list" "react_element list"

record runtime =
  now :: nat
  timers :: "(nat \<times> nat) list"
  next_handle :: nat
  visible :: bool
  timer :: "nat option"
  mounted :: bool
  current_element :: SkeletonProto
  setVisible_calls :: "bool list"

definition SHOW_DELAY_MS :: nat where
  "SHOW_DELAY_MS = 500"

definition setTimeout :: "nat \<Rightarrow> runtime \<Rightarrow> nat \<times> runtime" where
  "setTimeout delay s =
     (next_handle s,
      s\<lparr>timers := timers s @ [(next_handle s, now s + delay)],
        next_handle := next_handle s + 1\<rparr>)"

definition clearTimeout :: "nat \<Rightarrow> runtime \<Rightarrow> runtime" where
  "clearTimeout h s = s\<lparr>timers := filter (\<lambda>(h', d). h' \<noteq> h) (timers s)\<rparr>"

definition setVisible :: "bool \<Rightarrow> runtime \<Rightarrow> runtime" where
  "setVisible v s = s\<lparr>visible := v, setVisible_calls := setVisible_calls s @ [v]\<rparr>"

text \<open>The callback handed to \<^verbatim>\<open>setTimeout\<close>, the effect, and the cleanup it returns.\<close>

definition timer_callback :: "runtime \<Rightarrow> runtime" where
  "timer_callback s = setVisible True s"

definition effect :: "runtime \<Rightarrow> runtime" where
  "effect s = (let (t, s') = setTimeout SHOW_DELAY_MS s in s'\<lparr>timer := Some t\<rparr>)"

definition cleanup :: "runtime \<Rightarrow> runtime" where
  "cleanup s = (case timer s of None \<Rightarrow> s | Some t \<Rightarrow> clearTimeout t s)"

text \<open>What the component returns, given the prop and the runtime holding its state cell.\<close>

definition RawAppSkeleton :: "SkeletonProto \<Rightarrow> runtime \<Rightarrow> react_element" where
  "RawAppSkeleton el s =
     (if \<not> visible s then Fragment []
      else Element ''StyledSkeleton'' [(''data-testid'', ''stAppSkeleton'')]
             [Element ''TitleSkeleton'' [] [],
              Element ''ParagraphSkeleton'' []
                [Element ''TextLineSkeleton'' [(''width'', ''98%'')] [],
                 Element ''TextLineSkeleton'' [(''width'', ''100%'')] [],
                 Element ''TextLineSkeleton'' [(''width'', ''96%'')] [],
                 Element ''TextLineSkeleton'' [(''width'', ''65%'')] []],
              Element ''SquareSkeleton''
                [(''width'', ''75%''), (''height'', string_of_number (height el) @ ''pt'')]
                []])"

subsection \<open>The component's life\<close>

text \<open>
  Mounting at time \<open>t0\<close>, with \<open>h0\<close> the next free timeout handle: the state cell is
  initialised to \<^verbatim>\<open>false\<close> and the effect runs. Afterwards time passes, the parent renders
  the component again with a prop, or the component is unmounted. When time passes, the
  timeouts that are due are taken from the table and their callbacks run: a timeout fires
  as soon as its delay is over. The effect's dependency list is empty, so a later render
  does not run it again; unmounting runs the cleanup, once.
\<close>

definition mount :: "SkeletonProto \<Rightarrow> nat \<Rightarrow> nat \<Rightarrow> runtime" where
  "mount el t0 h0 =
     effect \<lparr>now = t0, timers = [], next_handle = h0, visible = False, timer = None,
             mounted = True, current_element = el, setVisible_calls = []\<rparr>"

datatype event = Advance nat | Rerender SkeletonProto | Unmount

definition run_due_timers :: "runtime \<Rightarrow> runtime" where
  "run_due_timers s =
     fold (\<lambda>(h, d) s'. timer_callback (s'\<lparr>timers := filter (\<lambda>(h', d'). h' \<noteq> h) (timers s')\<rparr>))
          (filter (\<lambda>(h, d). d \<le> now s) (timers s)) s"

fun step :: "event \<Rightarrow> runtime \<Rightarrow> runtime" where
  "step (Advance dt) s = run_due_timers (s\<lparr>now := now s + dt\<rparr>)"
| "step (Rerender el) s = (if mounted s then s\<lparr>current_element := el\<rparr> else s)"
| "step Unmount s = (if mounted s then (cleanup s)\<lparr>mounted := False\<rparr> else s)"

definition run :: "event list \<Rightarrow> runtime \<Rightarrow> runtime" where
  "run es s = fold step es s"

text \<open>What is on screen: the component's output while it is mounted.\<close>

definition view :: "runtime \<Rightarrow> react_element option" where
  "view s = (if mounted s then Some (RawAppSkeleton (current_element s) s) else None)"

text \<open>The time that has passed over a sequence of events.\<close>

fun elapsed :: "event list \<Rightarrow> nat" where
  "elapsed [] = 0"
| "elapsed (Advance dt # es) = dt + elapsed es"
| "elapsed (_ # es) = elapsed es"

text \<open>The visibility flag at mount and after each event.\<close>

fun history :: "event list \<Rightarrow> runtime \<Rightarrow> bool list" where
  "history [] s = [visible s]"
| "history (ev # es) s = visible s # history es (step ev s)"

text \<open>The height given to the square skeleton of a rendered layout, if there is one.\<close>

fun attr :: "string \<Rightarrow> react_element \<Rightarrow> string option" where
  "attr k (Fragment cs) = None"
| "attr k (Element name as cs) = map_of as k"

fun children :: "react_element \<Rightarrow> react_element list" where
  "children (Fragment cs) = cs"
| "children (Element name as cs) = cs"

fun is_named :: "string \<Rightarrow> react_element \<Rightarrow> bool" where
  "is_named n (Fragment cs) = False"
| "is_named n (Element name as cs) = (name = n)"

definition square_height :: "react_element \<Rightarrow> string option" where
  "square_height r =
     (case filter (is_named ''SquareSkeleton'') (children r) of
        [] \<Rightarrow> None
      | sq # _ \<Rightarrow> attr ''height'' sq)"

section \<open>Auxiliary definitions\<close>

text \<open>A concrete theme, for evaluating the rules at explicit inputs.\<close>

definition sample_theme :: EmotionTheme where
  "sample_theme =
     \<lparr>colors = \<lparr>bgColor = ''#ffffff'', bodyText = ''#31333f'', fadedText10 = ''#31333f1a'',
                 fadedText20 = ''#31333f33'', fadedText60 = ''#31333f99'',
                 darkenedBgMix15 = ''#97a6c326'', darkenedBgMix25 = ''#97a6c340'',
                 gray60 = ''#a3a8b8'', transparent = ''transparent'', primary = ''#ff4b4b''\<rparr>,
       zIndices = \<lparr>header = 999990, sidebarMobile = 999992\<rparr>,
       breakpoints = \<lparr>md = ''768px''\<rparr>,
       spacing = \<lparr>none = ''0'', threeXS = ''0.125rem'', twoXS = ''0.25rem'',
                  xs = ''0.375rem'', ThemeSpacing.sm = ''0.5rem'', lg = ''1rem'',
                  twoXL = ''1.5rem''\<rparr>,
       lineHeights = \<lparr>menuItem = 2\<rparr>,
       sizes = \<lparr>sidebarTopSpace = ''6rem''\<rparr>,
       fontSizes = \<lparr>sm = ''14px''\<rparr>\<rparr>"

text \<open>The prop the component holds after a sequence of events that began with \<open>el\<close>.\<close>

fun props_after :: "SkeletonProto \<Rightarrow> event list \<Rightarrow> SkeletonProto" where
  "props_after el [] = el"
| "props_after el (Rerender el' # es) = props_after el' es"
| "props_after el (_ # es) = props_after el es"

text \<open>
  The two phases of the timeout. While it is pending, the table holds exactly the timeout
  whose handle the cleanup captured, the component is mounted, and \<^verbatim>\<open>setVisible\<close> has not
  been called. Once it is gone (fired or cleared), the table is empty and the flag is
  set exactly if \<^verbatim>\<open>setVisible(true)\<close> was called, once.
\<close>

definition timer_pending :: "runtime \<Rightarrow> bool" where
  "timer_pending s =
     (mounted s \<and> \<not> visible s \<and> setVisible_calls s = [] \<and> length (timers s) = 1 \<and>
      timer s = Some (fst (hd (timers s))))"

definition timer_gone :: "runtime \<Rightarrow> bool" where
  "timer_gone s =
     (timers s = [] \<and> setVisible_calls s = (if visible s then [True] else []))"

section \<open>Properties of the style rules\<close>

text \<open>
  C5. For every combination of the three flags, \<open>StyledSidebarNavItems\<close> sets \<open>maxHeight\<close>
  to \<open>100vh\<close> when \<open>hasSidebarElements\<close> is false, to \<open>75vh\<close> when \<open>hasSidebarElements\<close> and
  \<open>isExpanded\<close> are true, and to \<open>33vh\<close> when \<open>hasSidebarElements\<close> is true and \<open>isExpanded\<close>
  is false; \<open>isOverflowing\<close> and the theme play no part.
\<close>

theorem StyledSidebarNavItems_maxHeight:
  "(\<not> hasSidebarElements p \<longrightarrow>
      map_of (StyledSidebarNavItems theme p) ''maxHeight'' = Some (Str ''100vh'')) \<and>
   (hasSidebarElements p \<and> StyledSidebarNavItemsProps.isExpanded p \<longrightarrow>
      map_of (StyledSidebarNavItems theme p) ''maxHeight'' = Some (Str ''75vh'')) \<and>
   (hasSidebarElements p \<and> \<not> StyledSidebarNavItemsProps.isExpanded p \<longrightarrow>
      map_of (StyledSidebarNavItems theme p) ''maxHeight'' = Some (Str ''33vh''))"
  by (simp add: StyledSidebarNavItems_def Let_def)

theorem StyledSidebarNavItems_maxHeight_witness:
  "map_of (StyledSidebarNavItems sample_theme
             \<lparr>StyledSidebarNavItemsProps.isExpanded = True,
              StyledSidebarNavItemsProps.isOverflowing = True,
              hasSidebarElements = False\<rparr>) ''maxHeight'' = Some (Str ''100vh'') \<and>
   map_of (StyledSidebarNavItems sample_theme
             \<lparr>StyledSidebarNavItemsProps.isExpanded = True,
              StyledSidebarNavItemsProps.isOverflowing = False,
              hasSidebarElements = True\<rparr>) ''maxHeight'' = Some (Str ''75vh'') \<and>
   map_of (StyledSidebarNavItems sample_theme
             \<lparr>StyledSidebarNavItemsProps.isExpanded = False,
              StyledSidebarNavItemsProps.isOverflowing = True,
              hasSidebarElements = True\<rparr>) ''maxHeight'' = Some (Str ''33vh'')"
  using
    StyledSidebarNavItems_maxHeight
      [of "\<lparr>StyledSidebarNavItemsProps.isExpanded = True,
            StyledSidebarNavItemsProps.isOverflowing = True,
            hasSidebarElements = False\<rparr>" sample_theme]
    StyledSidebarNavItems_maxHeight
      [of "\<lparr>StyledSidebarNavItemsProps.isExpanded = True,
            StyledSidebarNavItemsProps.isOverflowing = False,
            hasSidebarElements = True\<rparr>" sample_theme]
    StyledSidebarNavItems_maxHeight
      [of "\<lparr>StyledSidebarNavItemsProps.isExpanded = False,
            StyledSidebarNavItemsProps.isOverflowing = True,
            hasSidebarElements = True\<rparr>" sample_theme]
  by simp

subsection \<open>The rounded product\<close>

lemma bit_length_bounds:
  "0 < n \<Longrightarrow> 2 ^ (bit_length n - 1) \<le> n \<and> n < 2 ^ bit_length n"
proof (induction n rule: bit_length.induct)
  case (1 n)
  show ?case
  proof (cases "n div 2 = 0")
    case True
    with 1 have "n = 1" by (auto simp: div_eq_0_iff)
    then show ?thesis by (simp add: bit_length.simps)
  next
    case False
    with 1 have below:
      "2 ^ (bit_length (n div 2) - 1) \<le> n div 2 \<and> n div 2 < 2 ^ bit_length (n div 2)"
      by simp
    from False have pos: "0 < bit_length (n div 2)"
      by (simp add: bit_length.simps[of "n div 2"])
    have len: "bit_length n = Suc (bit_length (n div 2))"
      using 1 by (simp add: bit_length.simps[of n])
    from below have "2 * 2 ^ (bit_length (n div 2) - 1) \<le> n" by linarith
    moreover have "2 * 2 ^ (bit_length (n div 2) - 1) = (2::nat) ^ bit_length (n div 2)"
      using pos by (metis Suc_pred' power_Suc)
    moreover from below have "n < 2 * 2 ^ bit_length (n div 2)" by linarith
    ultimately show ?thesis using len by simp
  qed
qed

text \<open>Rounding to 53 bits moves a number by at most one part in \<open>2 ^ 53\<close>.\<close>

lemma round_to_53_bits_error:
  "\<bar>real (round_to_53_bits n) - real n\<bar> * 2 ^ 53 \<le> real n"
proof (cases "bit_length n \<le> 53")
  case True
  then show ?thesis by (simp add: round_to_53_bits_def)
next
  case False
  define sh where "sh = bit_length n - 53"
  define q where "q = n div 2 ^ sh"
  define r where "r = n mod 2 ^ sh"
  define half :: nat where "half = 2 ^ (sh - 1)"
  from False have shpos: "0 < sh" and len: "bit_length n = sh + 53"
    by (simp_all add: sh_def)
  from False have npos: "0 < n"
    by (cases "n = 0") (simp_all add: bit_length.simps)
  have two: "(2::nat) ^ sh = 2 * half"
    using shpos unfolding half_def by (metis Suc_pred' power_Suc)
  have "n = q * 2 ^ sh + r"
    unfolding q_def r_def by (rule div_mult_mod_eq[symmetric])
  moreover have "r < 2 ^ sh"
    by (simp add: r_def)
  ultimately have parts: "n = q * (2 * half) + r" and rlt: "r < 2 * half"
    by (simp_all only: two)
  from shpos obtain k where k: "sh = Suc k" by (cases sh) simp_all
  have "half * 2 ^ 53 = 2 ^ (bit_length n - 1)"
    unfolding half_def len k by (simp only: diff_Suc_1 add_Suc power_add)
  with bit_length_bounds[OF npos] have big: "half * 2 ^ 53 \<le> n" by simp
  have rounded: "round_to_53_bits n =
      (if half < r \<or> (r = half \<and> odd q) then q + 1 else q) * (2 * half)"
    using False unfolding round_to_53_bits_def Let_def sh_def[symmetric]
      q_def[symmetric] r_def[symmetric] half_def[symmetric] two[symmetric] by simp
  have near: "\<bar>real (round_to_53_bits n) - real n\<bar> \<le> real half"
  proof (cases "half < r \<or> (r = half \<and> odd q)")
    case True
    then have "round_to_53_bits n = (q + 1) * (2 * half)" by (simp only: rounded if_True)
    then have "round_to_53_bits n = q * (2 * half) + 2 * half" by simp
    moreover from True have "half \<le> r" by auto
    ultimately show ?thesis using parts rlt by linarith
  next
    case False
    then have "round_to_53_bits n = q * (2 * half)" by (simp only: rounded if_False)
    moreover from False have "r \<le> half" by auto
    ultimately show ?thesis using parts by linarith
  qed
  have "\<bar>real (round_to_53_bits n) - real n\<bar> * 2 ^ 53 \<le> real half * 2 ^ 53"
    using near by (simp add: mult_right_mono)
  also have "\<dots> \<le> real n"
    using big by (metis of_nat_le_iff of_nat_mult of_nat_numeral of_nat_power)
  finally show ?thesis .
qed

text \<open>The product with the double \<^verbatim>\<open>0.9\<close> is nine tenths up to one part in \<open>2 ^ 52\<close>.\<close>

lemma times_0_9_near_nine_tenths:
  "\<bar>times_0_9 i - 0.9 * real_of_int i\<bar> \<le> \<bar>real_of_int i\<bar> / 2 ^ 52"
proof -
  define a where "a = nat \<bar>i\<bar>"
  define n where "n = a * significand_0_9"
  define R where "R = round_to_53_bits n"
  have ra: "real a = \<bar>real_of_int i\<bar>" by (simp add: a_def)
  have rn: "real n = real a * 8106479329266893" by (simp add: n_def significand_0_9_def)
  have err: "\<bar>real R - real n\<bar> * 2 ^ 53 \<le> real n"
    unfolding R_def by (rule round_to_53_bits_error)
  have prod: "times_0_9 i = real_of_int (sgn i) * real R / 2 ^ 53"
    by (simp add: times_0_9_def R_def n_def a_def)
  have arg: "real_of_int i = real_of_int (sgn i) * real a"
    by (simp add: a_def sgn_if)
  have unit: "\<bar>real_of_int (sgn i)\<bar> \<le> 1" by (simp add: sgn_if)
  have "times_0_9 i - 0.9 * real_of_int i =
        real_of_int (sgn i) * (real R / 2 ^ 53 - 0.9 * real a)"
    by (subst prod, subst arg) (simp add: algebra_simps)
  then have "\<bar>times_0_9 i - 0.9 * real_of_int i\<bar> =
        \<bar>real_of_int (sgn i)\<bar> * \<bar>real R / 2 ^ 53 - 0.9 * real a\<bar>"
    by (simp add: abs_mult)
  also have "\<dots> \<le> \<bar>real R / 2 ^ 53 - 0.9 * real a\<bar>"
    using unit by (simp add: mult_left_le_one_le)
  also have "\<dots> \<le> real a / 2 ^ 52"
  proof -
    have a0: "0 \<le> real a" by simp
    from err have "\<bar>real R - real n\<bar> * 2 ^ 53 \<le> real a * 2 ^ 53"
      using a0 unfolding rn by simp
    then have close: "\<bar>real R - real n\<bar> \<le> real a" by simp
    have "real R / 2 ^ 53 - 0.9 * real a = (5 * (real R - real n) + real a) / (5 * 2 ^ 53)"
      unfolding rn by (simp add: field_simps)
    also have "\<bar>\<dots>\<bar> = \<bar>5 * (real R - real n) + real a\<bar> / (5 * 2 ^ 53)"
      by simp
    also have "\<dots> \<le> (10 * real a) / (5 * 2 ^ 53)"
    proof -
      define x where "x = real R - real n"
      define y where "y = real a"
      from close a0 have "\<bar>x\<bar> \<le> y" "0 \<le> y" by (simp_all add: x_def y_def)
      then have "\<bar>5 * x + y\<bar> \<le> 10 * y" by linarith
      then have "\<bar>5 * (real R - real n) + real a\<bar> \<le> 10 * real a"
        by (simp only: x_def y_def)
      then show ?thesis by (rule divide_right_mono) simp
    qed
    also have "\<dots> = real a / 2 ^ 52" by simp
    finally show ?thesis .
  qed
  finally show ?thesis by (simp add: ra)
qed

text \<open>
  C8. When \<open>isCollapsed\<close> is true, \<open>StyledSidebar\<close> gives \<open>minWidth\<close> 0, \<open>maxWidth\<close> 0 and the
  transform \<open>translateX(-<sidebarWidth>px)\<close>, whatever the window width, the theme and the
  other props are. When \<open>isCollapsed\<close> is false, the transform is \<open>none\<close>, \<open>minWidth\<close> is the
  smaller of 244 and the window width, and \<open>maxWidth\<close> is the smaller of 550 and the
  product of the window width with \<^verbatim>\<open>0.9\<close>. The product is the one the code computes, in
  doubles: it is nine tenths of the width up to the rounding of the literal and of the
  multiplication, less than one part in \<open>2 ^ 52\<close> of the width.
\<close>

theorem StyledSidebar_widths_and_transform:
  "(StyledSidebarProps.isCollapsed p \<longrightarrow>
      map_of (StyledSidebar w th p) ''minWidth'' = Some (Num 0) \<and>
      map_of (StyledSidebar w th p) ''maxWidth'' = Some (Num 0) \<and>
      map_of (StyledSidebar w th p) ''transform'' =
        Some (Str (''translateX(-'' @ sidebarWidth p @ ''px)''))) \<and>
   (\<not> StyledSidebarProps.isCollapsed p \<longrightarrow>
      map_of (StyledSidebar w th p) ''transform'' = Some (Str ''none'') \<and>
      map_of (StyledSidebar w th p) ''minWidth'' =
        Some (Num (real_of_int (min 244 (innerWidth w)))) \<and>
      map_of (StyledSidebar w th p) ''maxWidth'' =
        Some (Num (min 550 (times_0_9 (innerWidth w))))) \<and>
   \<bar>times_0_9 (innerWidth w) - 0.9 * real_of_int (innerWidth w)\<bar>
     \<le> \<bar>real_of_int (innerWidth w)\<bar> / 2 ^ 52"
  using times_0_9_near_nine_tenths [of "innerWidth w"]
  by (simp add: StyledSidebar_def Let_def)

text \<open>
  At a width of 411 the product is the double that prints as \<open>369.90000000000003\<close>, which
  is \<open>6507349617829479 / 2 ^ 44\<close> and not \<open>3699 / 10\<close>; at 200 it is 180, and from 612 on the
  bound of 550 applies.
\<close>

theorem StyledSidebar_widths_and_transform_witness:
  "map_of (StyledSidebar \<lparr>innerWidth = 1000\<rparr> sample_theme
             \<lparr>StyledSidebarProps.isCollapsed = True, adjustTop = True,
              sidebarWidth = ''300''\<rparr>) ''transform'' = Some (Str ''translateX(-300px)'') \<and>
   map_of (StyledSidebar \<lparr>innerWidth = 1000\<rparr> sample_theme
             \<lparr>StyledSidebarProps.isCollapsed = True, adjustTop = True,
              sidebarWidth = ''300''\<rparr>) ''maxWidth'' = Some (Num 0) \<and>
   map_of (StyledSidebar \<lparr>innerWidth = 200\<rparr> sample_theme
             \<lparr>StyledSidebarProps.isCollapsed = False, adjustTop = False,
              sidebarWidth = ''300''\<rparr>) ''minWidth'' = Some (Num 200) \<and>
   map_of (StyledSidebar \<lparr>innerWidth = 200\<rparr> sample_theme
             \<lparr>StyledSidebarProps.isCollapsed = False, adjustTop = False,
              sidebarWidth = ''300''\<rparr>) ''maxWidth'' = Some (Num 180) \<and>
   map_of (StyledSidebar \<lparr>innerWidth = 411\<rparr> sample_theme
             \<lparr>StyledSidebarProps.isCollapsed = False, adjustTop = False,
              sidebarWidth = ''300''\<rparr>) ''maxWidth'' =
     Some (Num (6507349617829479 / 17592186044416)) \<and>
   map_of (StyledSidebar \<lparr>innerWidth = 411\<rparr> sample_theme
             \<lparr>StyledSidebarProps.isCollapsed = False, adjustTop = False,
              sidebarWidth = ''300''\<rparr>) ''maxWidth'' \<noteq> Some (Num (3699 / 10)) \<and>
   map_of (StyledSidebar \<lparr>innerWidth = 612\<rparr> sample_theme
             \<lparr>StyledSidebarProps.isCollapsed = False, adjustTop = False,
              sidebarWidth = ''300''\<rparr>) ''maxWidth'' = Some (Num 550)"
  using
    StyledSidebar_widths_and_transform
      [of "\<lparr>StyledSidebarProps.isCollapsed = True, adjustTop = True,
            sidebarWidth = ''300''\<rparr>" "\<lparr>innerWidth = 1000\<rparr>" sample_theme]
    StyledSidebar_widths_and_transform
      [of "\<lparr>StyledSidebarProps.isCollapsed = False, adjustTop = False,
            sidebarWidth = ''300''\<rparr>" "\<lparr>innerWidth = 200\<rparr>" sample_theme]
    StyledSidebar_widths_and_transform
      [of "\<lparr>StyledSidebarProps.isCollapsed = False, adjustTop = False,
            sidebarWidth = ''300''\<rparr>" "\<lparr>innerWidth = 411\<rparr>" sample_theme]
    StyledSidebar_widths_and_transform
      [of "\<lparr>StyledSidebarProps.isCollapsed = False, adjustTop = False,
            sidebarWidth = ''300''\<rparr>" "\<lparr>innerWidth = 612\<rparr>" sample_theme]
  by (simp add: times_0_9_def significand_0_9_def round_to_53_bits_def bit_length.simps
      Let_def)

text \<open>
  C9. \<open>StyledSidebarNavSeparatorContainer\<close> sets \<open>cursor\<close> to \<open>pointer\<close> exactly if
  \<open>isExpanded\<close> or \<open>isOverflowing\<close> is true, and to \<open>default\<close> exactly if both are false.
\<close>

theorem StyledSidebarNavSeparatorContainer_cursor:
  "(map_of (StyledSidebarNavSeparatorContainer theme p) ''cursor'' = Some (Str ''pointer''))
     = (StyledSidebarNavSeparatorContainerProps.isExpanded p
        \<or> StyledSidebarNavSeparatorContainerProps.isOverflowing p) \<and>
   (map_of (StyledSidebarNavSeparatorContainer theme p) ''cursor'' = Some (Str ''default''))
     = (\<not> (StyledSidebarNavSeparatorContainerProps.isExpanded p
           \<or> StyledSidebarNavSeparatorContainerProps.isOverflowing p))"
  by (simp add: StyledSidebarNavSeparatorContainer_def)

text \<open>
  C10. \<open>StyledLogo\<close> sets \<open>height\<close> to \<open>1.5rem\<close> when the size prop is the string \<open>fixed\<close>, and
  to \<open>auto\<close> for every other string, the empty string and unknown values included.
\<close>

theorem StyledLogo_height:
  "(sizeP p = ''fixed'' \<longrightarrow> map_of (StyledLogo theme p) ''height'' = Some (Str ''1.5rem'')) \<and>
   (sizeP p \<noteq> ''fixed'' \<longrightarrow> map_of (StyledLogo theme p) ''height'' = Some (Str ''auto''))"
  by (simp add: StyledLogo_def Let_def)

theorem StyledLogo_height_witness:
  "map_of (StyledLogo sample_theme \<lparr>sizeP = ''fixed''\<rparr>) ''height'' = Some (Str ''1.5rem'') \<and>
   map_of (StyledLogo sample_theme \<lparr>sizeP = []\<rparr>) ''height'' = Some (Str ''auto'') \<and>
   map_of (StyledLogo sample_theme \<lparr>sizeP = ''Fixed''\<rparr>) ''height'' = Some (Str ''auto'') \<and>
   map_of (StyledLogo sample_theme \<lparr>sizeP = ''full''\<rparr>) ''height'' = Some (Str ''auto'')"
  using StyledLogo_height [of "\<lparr>sizeP = ''fixed''\<rparr>" sample_theme]
        StyledLogo_height [of "\<lparr>sizeP = []\<rparr>" sample_theme]
        StyledLogo_height [of "\<lparr>sizeP = ''Fixed''\<rparr>" sample_theme]
        StyledLogo_height [of "\<lparr>sizeP = ''full''\<rparr>" sample_theme]
  by simp




section \<open>Properties of the skeleton\<close>

subsection \<open>Runs in which the component stays mounted\<close>

lemma mount_eq:
  "mount el t0 h0 =
     \<lparr>now = t0, timers = [(h0, t0 + 500)], next_handle = h0 + 1, visible = False,
      timer = Some h0, mounted = True, current_element = el, setVisible_calls = []\<rparr>"
  by (simp add: mount_def effect_def setTimeout_def SHOW_DELAY_MS_def)

lemma run_snoc: "run (es @ [ev]) s = step ev (run es s)"
  by (simp add: run_def)

lemma elapsed_snoc:
  "elapsed (es @ [ev]) = elapsed es + (case ev of Advance dt \<Rightarrow> dt | _ \<Rightarrow> 0)"
  by (induction es rule: elapsed.induct) (auto split: event.splits)

lemma props_after_snoc:
  "props_after el (es @ [ev]) = (case ev of Rerender el' \<Rightarrow> el' | _ \<Rightarrow> props_after el es)"
  by (induction el es rule: props_after.induct) (auto split: event.splits)

text \<open>
  As long as the component is not unmounted, its state is a function of the time that
  has passed since it was mounted: the timeout is in the table until 500 ms are over, and
  from then on the flag is set.
\<close>

lemma run_mounted:
  "Unmount \<notin> set es \<Longrightarrow>
   run es (mount el t0 h0) =
     \<lparr>now = t0 + elapsed es,
      timers = (if elapsed es < 500 then [(h0, t0 + 500)] else []),
      next_handle = h0 + 1,
      visible = (500 \<le> elapsed es),
      timer = Some h0, mounted = True,
      current_element = props_after el es,
      setVisible_calls = (if elapsed es < 500 then [] else [True])\<rparr>"
proof (induction es rule: rev_induct)
  case Nil
  then show ?case by (simp add: run_def mount_eq)
next
  case (snoc ev es)
  then have before: "run es (mount el t0 h0) =
     \<lparr>now = t0 + elapsed es,
      timers = (if elapsed es < 500 then [(h0, t0 + 500)] else []),
      next_handle = h0 + 1,
      visible = (500 \<le> elapsed es),
      timer = Some h0, mounted = True,
      current_element = props_after el es,
      setVisible_calls = (if elapsed es < 500 then [] else [True])\<rparr>"
    by simp
  from snoc.prems have stays: "ev \<noteq> Unmount" by auto
  show ?case
  proof (cases ev)
    case (Advance dt)
    then show ?thesis
      by (simp add: run_snoc before elapsed_snoc props_after_snoc run_due_timers_def
          timer_callback_def setVisible_def)
  next
    case (Rerender el')
    then show ?thesis by (simp add: run_snoc before elapsed_snoc props_after_snoc)
  next
    case Unmount
    with stays show ?thesis by simp
  qed
qed

subsection \<open>Arbitrary runs\<close>

lemma mount_pending: "timer_pending (mount el t0 h0)"
  by (simp add: mount_eq timer_pending_def)

lemma step_gone:
  assumes "timer_gone s"
  shows "timer_gone (step ev s) \<and> visible (step ev s) = visible s
         \<and> setVisible_calls (step ev s) = setVisible_calls s"
  using assms
  by (cases ev) (auto simp: timer_gone_def run_due_timers_def cleanup_def clearTimeout_def
      split: option.splits)

lemma step_pending:
  assumes "timer_pending s"
  shows "timer_pending (step ev s) \<or> timer_gone (step ev s)"
proof -
  from assms obtain h d where tab: "timers s = [(h, d)]" and cap: "timer s = Some h"
    and rest: "mounted s" "\<not> visible s" "setVisible_calls s = []"
    by (cases "timers s") (auto simp: timer_pending_def)
  show ?thesis
  proof (cases ev)
    case (Advance dt)
    then show ?thesis using tab cap rest
      by (simp add: timer_pending_def timer_gone_def run_due_timers_def timer_callback_def
          setVisible_def)
  next
    case (Rerender el')
    then show ?thesis using tab cap rest by (simp add: timer_pending_def)
  next
    case Unmount
    then show ?thesis using tab cap rest
      by (simp add: timer_gone_def cleanup_def clearTimeout_def)
  qed
qed

lemma pending_not_visible: "timer_pending s \<Longrightarrow> \<not> visible s"
  by (simp add: timer_pending_def)

lemma step_keeps_visible:
  "timer_pending s \<or> timer_gone s \<Longrightarrow> visible s \<Longrightarrow> visible (step ev s)"
  using step_gone pending_not_visible by blast

lemma step_phase:
  "timer_pending s \<or> timer_gone s \<Longrightarrow> timer_pending (step ev s) \<or> timer_gone (step ev s)"
  using step_gone step_pending by blast

lemma run_phase:
  "timer_pending s \<or> timer_gone s \<Longrightarrow> timer_pending (run es s) \<or> timer_gone (run es s)"
  unfolding run_def by (induction es arbitrary: s) (auto simp: step_phase)

lemma run_gone:
  "timer_gone s \<Longrightarrow>
   timer_gone (run es s) \<and> visible (run es s) = visible s
     \<and> setVisible_calls (run es s) = setVisible_calls s"
  unfolding run_def
proof (induction es arbitrary: s)
  case Nil
  then show ?case by simp
next
  case (Cons ev es)
  from step_gone[OF Cons.prems, of ev] Cons.IH[of "step ev s"] show ?case by simp
qed

text \<open>The flag's history is a block of \<open>False\<close> followed by a block of \<open>True\<close>.\<close>

lemma history_shape:
  "timer_pending s \<or> timer_gone s \<Longrightarrow>
   \<exists>n. history es s = replicate n False @ replicate (Suc (length es) - n) True
       \<and> (visible s \<longrightarrow> n = 0) \<and> (\<not> visible s \<longrightarrow> 0 < n)"
proof (induction es arbitrary: s)
  case Nil
  show ?case
  proof (cases "visible s")
    case True
    then show ?thesis by (intro exI[of _ 0]) simp
  next
    case False
    then show ?thesis by (intro exI[of _ 1]) simp
  qed
next
  case (Cons ev es)
  from Cons.prems have phase: "timer_pending (step ev s) \<or> timer_gone (step ev s)"
    by (rule step_phase)
  from Cons.IH[OF phase] obtain n where
    later: "history es (step ev s) = replicate n False @ replicate (Suc (length es) - n) True"
    and shown: "visible (step ev s) \<longrightarrow> n = 0"
    by blast
  show ?case
  proof (cases "visible s")
    case True
    with Cons.prems have "visible (step ev s)" by (simp add: step_keeps_visible)
    with shown have "n = 0" by simp
    with later True show ?thesis
      by (intro exI[of _ 0]) (simp flip: replicate_Suc)
  next
    case False
    with later show ?thesis
      by (intro exI[of _ "Suc n"]) simp
  qed
qed

subsection \<open>The claims\<close>

text \<open>
  C1. For every element prop, at every moment before 500 ms have passed since the
  component was mounted it renders an empty fragment, and at every moment from then on
  it renders the placeholder layout: the title skeleton, the paragraph of four text-line
  skeletons, and the square skeleton. This holds for every run in which the component
  stays mounted, whatever the parent re-renders in between.
\<close>

theorem skeleton_hidden_then_shown:
  "Unmount \<notin> set es \<Longrightarrow>
   (elapsed es < SHOW_DELAY_MS \<longrightarrow> view (run es (mount el t0 h0)) = Some (Fragment [])) \<and>
   (SHOW_DELAY_MS \<le> elapsed es \<longrightarrow>
      view (run es (mount el t0 h0)) =
        Some (Element ''StyledSkeleton'' [(''data-testid'', ''stAppSkeleton'')]
               [Element ''TitleSkeleton'' [] [],
                Element ''ParagraphSkeleton'' []
                  [Element ''TextLineSkeleton'' [(''width'', ''98%'')] [],
                   Element ''TextLineSkeleton'' [(''width'', ''100%'')] [],
                   Element ''TextLineSkeleton'' [(''width'', ''96%'')] [],
                   Element ''TextLineSkeleton'' [(''width'', ''65%'')] []],
                Element ''SquareSkeleton''
                  [(''width'', ''75%''),
                   (''height'',
                    string_of_number (height (current_element (run es (mount el t0 h0))))
                      @ ''pt'')]
                  []]))"
  by (simp add: run_mounted view_def RawAppSkeleton_def SHOW_DELAY_MS_def)

theorem skeleton_hidden_then_shown_witness:
  "view (run [Advance 200, Rerender \<lparr>height = 40\<rparr>, Advance 299]
           (mount \<lparr>height = 120\<rparr> 1000 7)) = Some (Fragment []) \<and>
   view (run [Advance 200, Rerender \<lparr>height = 40\<rparr>, Advance 300]
           (mount \<lparr>height = 120\<rparr> 1000 7)) =
     Some (Element ''StyledSkeleton'' [(''data-testid'', ''stAppSkeleton'')]
            [Element ''TitleSkeleton'' [] [],
             Element ''ParagraphSkeleton'' []
               [Element ''TextLineSkeleton'' [(''width'', ''98%'')] [],
                Element ''TextLineSkeleton'' [(''width'', ''100%'')] [],
                Element ''TextLineSkeleton'' [(''width'', ''96%'')] [],
                Element ''TextLineSkeleton'' [(''width'', ''65%'')] []],
             Element ''SquareSkeleton'' [(''width'', ''75%''), (''height'', ''40pt'')] []])"
  using
    skeleton_hidden_then_shown
      [of "[Advance 200, Rerender \<lparr>height = 40\<rparr>, Advance 299]" "\<lparr>height = 120\<rparr>" 1000 7]
    skeleton_hidden_then_shown
      [of "[Advance 200, Rerender \<lparr>height = 40\<rparr>, Advance 300]" "\<lparr>height = 120\<rparr>" 1000 7]
  by (simp add: SHOW_DELAY_MS_def run_mounted string_of_number_def)

text \<open>
  C3. The visibility flag is false when the component is mounted, goes from false to
  true at most once, and never goes back from true to false: along every sequence of
  events its values are some falses, at least one, followed by trues only. The one call
  of \<^verbatim>\<open>setVisible\<close> that can occur is the timeout's, with \<^verbatim>\<open>true\<close>.
\<close>

theorem visible_flag_rises_at_most_once:
  "(\<exists>n. 0 < n \<and>
        history es (mount el t0 h0) =
          replicate n False @ replicate (Suc (length es) - n) True) \<and>
   (setVisible_calls (run es (mount el t0 h0)) = [] \<or>
    setVisible_calls (run es (mount el t0 h0)) = [True])"
proof
  have "\<not> visible (mount el t0 h0)" by (simp add: mount_eq)
  with history_shape[of "mount el t0 h0" es] mount_pending[of el t0 h0]
  show "\<exists>n. 0 < n \<and>
          history es (mount el t0 h0) =
            replicate n False @ replicate (Suc (length es) - n) True"
    by blast
next
  from run_phase[of "mount el t0 h0" es] mount_pending[of el t0 h0]
  show "setVisible_calls (run es (mount el t0 h0)) = [] \<or>
        setVisible_calls (run es (mount el t0 h0)) = [True]"
    by (auto simp: timer_pending_def timer_gone_def split: if_splits)
qed

text \<open>
  C4. If the component is unmounted before the timeout has fired, the timeout, which
  was still in the table, is removed from it, and whatever happens afterwards
  \<^verbatim>\<open>setVisible\<close> is never called and the flag stays false.
\<close>

theorem unmount_cancels_timer:
  "Unmount \<notin> set es \<Longrightarrow> elapsed es < SHOW_DELAY_MS \<Longrightarrow>
   timers (run es (mount el t0 h0)) = [(h0, t0 + SHOW_DELAY_MS)] \<and>
   timers (run (es @ [Unmount]) (mount el t0 h0)) = [] \<and>
   setVisible_calls (run (es @ Unmount # es') (mount el t0 h0)) = [] \<and>
   \<not> visible (run (es @ Unmount # es') (mount el t0 h0))"
proof -
  assume early: "Unmount \<notin> set es" "elapsed es < SHOW_DELAY_MS"
  let ?s = "run (es @ [Unmount]) (mount el t0 h0)"
  from early have tab: "timers (run es (mount el t0 h0)) = [(h0, t0 + SHOW_DELAY_MS)]"
    by (simp add: run_mounted SHOW_DELAY_MS_def)
  from early have off: "timers ?s = [] \<and> setVisible_calls ?s = [] \<and> \<not> visible ?s"
    by (simp add: run_snoc run_mounted SHOW_DELAY_MS_def cleanup_def clearTimeout_def)
  then have "timer_gone ?s" by (simp add: timer_gone_def)
  from run_gone[OF this, of es'] off
  have "setVisible_calls (run es' ?s) = [] \<and> \<not> visible (run es' ?s)" by simp
  moreover have "run (es @ Unmount # es') (mount el t0 h0) = run es' ?s"
    by (simp add: run_def)
  ultimately show ?thesis using tab off by simp
qed

theorem unmount_cancels_timer_witness:
  "timers (run [Advance 200] (mount \<lparr>height = 120\<rparr> 0 0)) = [(0, 500)] \<and>
   timers (run ([Advance 200] @ [Unmount]) (mount \<lparr>height = 120\<rparr> 0 0)) = [] \<and>
   setVisible_calls
     (run ([Advance 200] @ Unmount # [Advance 1000]) (mount \<lparr>height = 120\<rparr> 0 0)) = [] \<and>
   \<not> visible (run ([Advance 200] @ Unmount # [Advance 1000]) (mount \<lparr>height = 120\<rparr> 0 0))"
  using unmount_cancels_timer [of "[Advance 200]" "\<lparr>height = 120\<rparr>" 0 0 "[Advance 1000]"]
  by (simp add: SHOW_DELAY_MS_def)

text \<open>
  C6. Once the delay is over, the square skeleton is rendered with the height prop
  written in decimal and followed by \<open>pt\<close>, for every element prop.
\<close>

theorem square_skeleton_height:
  "Unmount \<notin> set es \<Longrightarrow> SHOW_DELAY_MS \<le> elapsed es \<Longrightarrow>
   \<exists>r. view (run es (mount el t0 h0)) = Some r \<and>
       square_height r =
         Some (string_of_number (height (current_element (run es (mount el t0 h0))))
                 @ ''pt'')"
  by (simp add: run_mounted view_def RawAppSkeleton_def SHOW_DELAY_MS_def square_height_def)

theorem square_skeleton_height_witness:
  "\<exists>r. view (run [Advance 500] (mount \<lparr>height = 120\<rparr> 0 0)) = Some r \<and>
       square_height r = Some ''120pt''"
  using square_skeleton_height [of "[Advance 500]" "\<lparr>height = 120\<rparr>" 0 0]
  by (simp add: SHOW_DELAY_MS_def run_mounted string_of_number_def)

end
